theory Spec2Isabelle
  imports Main
begin

section \<open>The build script \<open>setup.py\<close> of TeNPy\<close>

text \<open>
  The only source file is \<open>setup.py\<close>. It stamps a version (from git), and it configures
  the compilation of the Cython extension from the process environment: the optimization
  level \<open>TENPY_OPTIMIZE\<close> selects compiler directives, and the MKL variables select the
  linked libraries.

  Everything the script reads from outside is explicit in the model:
  \<^item> the environment and the file system are fields of a \<open>world\<close> record;
  \<^item> \<open>subprocess.check_output\<close> is a parameter \<open>check_output\<close>, each call of it is logged
    in the field \<open>spawned\<close> of the world;
  \<^item> \<open>cythonize\<close>, \<open>numpy.get_include()\<close>, \<open>numpy.version.full_version\<close> and the
    interpreter's limit on the digits of an integer literal are parameters;
  \<^item> an exception is a value \<open>Inl e\<close> of a sum type.
  Messages printed to standard output are not part of the model.
\<close>

subsection \<open>Python built-ins used by the script\<close>

datatype error = ValueError | IndexError | CalledProcessError | ImportError

text \<open>
  A string is a list of code points below 256 (a \<open>char\<close> is one code point); a Python
  string with a larger code point has no counterpart here.

  \<open>str.strip()\<close> drops the characters for which \<open>str.isspace\<close> holds: below 256 these are
  \<open>\t \n \v \f \r\<close>, \<open>0x1c .. 0x1f\<close>, the blank, \<open>0x85\<close> and \<open>0xa0\<close>.
\<close>

definition py_isspace :: "char \<Rightarrow> bool" where
  "py_isspace c =
     (let n = (of_char c :: nat)
      in (9 \<le> n \<and> n \<le> 13) \<or> (28 \<le> n \<and> n \<le> 32) \<or> n = 133 \<or> n = 160)"

definition py_strip :: "string \<Rightarrow> string" where
  "py_strip s = rev (dropWhile py_isspace (rev (dropWhile py_isspace s)))"

text \<open>
  \<open>int(s)\<close> skips less: \<open>\t \n \v \f \r\<close> and the blank, and \<open>0x85\<close> and \<open>0xa0\<close>, which
  it turns into blanks first. The separators \<open>0x1c .. 0x1f\<close> are not skipped:
  \<open>int('\x1c2')\<close> raises \<open>ValueError\<close>.
\<close>

definition int_isspace :: "char \<Rightarrow> bool" where
  "int_isspace c =
     (let n = (of_char c :: nat)
      in (9 \<le> n \<and> n \<le> 13) \<or> n = 32 \<or> n = 133 \<or> n = 160)"

definition int_strip :: "string \<Rightarrow> string" where
  "int_strip s = rev (dropWhile int_isspace (rev (dropWhile int_isspace s)))"

definition is_digit :: "char \<Rightarrow> bool" where
  "is_digit c = (let n = (of_char c :: nat) in 48 \<le> n \<and> n \<le> 57)"

definition digit_val :: "char \<Rightarrow> nat" where
  "digit_val c = of_char c - 48"

text \<open>
  The digits of a literal, most significant first. One underscore may stand between two
  digits (\<open>int('1_000') = 1000\<close>); anything else raises, which is \<open>None\<close> here.
\<close>

fun digits_value :: "nat \<Rightarrow> string \<Rightarrow> nat option" where
  "digits_value acc [] = Some acc"
| "digits_value acc (c # cs) =
     (if is_digit c then digits_value (acc * 10 + digit_val c) cs
      else if c = CHR ''_'' then
        (case cs of
           [] \<Rightarrow> None
         | d # ds \<Rightarrow> if is_digit d then digits_value acc cs else None)
      else None)"

definition unsigned_value :: "string \<Rightarrow> nat option" where
  "unsigned_value s =
     (case s of
        [] \<Rightarrow> None
      | c # cs \<Rightarrow> if is_digit c then digits_value 0 s else None)"

text \<open>
  \<open>int(s)\<close> in base 10: the white space of \<open>int\<close> is skipped at both ends, one sign is
  allowed in front of the digits, and the interpreter refuses a literal of more than
  \<open>max_str_digits\<close> digits once it has more than 640 of them (\<open>max_str_digits = 0\<close>
  switches the limit off, as in \<open>sys.set_int_max_str_digits\<close>). Below 256 the only decimal
  digits are \<open>0 .. 9\<close>. \<open>None\<close> stands for the \<open>ValueError\<close>.
\<close>

definition py_int :: "nat \<Rightarrow> string \<Rightarrow> int option" where
  "py_int max_str_digits s =
     (let t = int_strip s;
          neg = (case t of [] \<Rightarrow> False | c # cs \<Rightarrow> c = CHR ''-'');
          body = (case t of
                    [] \<Rightarrow> []
                  | c # cs \<Rightarrow> if c = CHR ''-'' \<or> c = CHR ''+'' then cs else t);
          digits = length (filter is_digit body)
      in if 0 < max_str_digits \<and> 640 < digits \<and> max_str_digits < digits then None
         else (case unsigned_value body of
                 None \<Rightarrow> None
               | Some n \<Rightarrow> Some (if neg then - int n else int n)))"

text \<open>\<open>'{0:d}'.format(n)\<close> and \<open>str(n)\<close>: the decimal digits of an integer.\<close>

fun str_nat :: "nat \<Rightarrow> string" where
  "str_nat n =
     (if n < 10 then [char_of (48 + n)]
      else str_nat (n div 10) @ [char_of (48 + n mod 10)])"

declare str_nat.simps [simp del]

definition str_int :: "int \<Rightarrow> string" where
  "str_int i = (if i < 0 then CHR ''-'' # str_nat (nat (- i)) else str_nat (nat i))"

definition str_bool :: "bool \<Rightarrow> string" where
  "str_bool b = (if b then ''True'' else ''False'')"

text \<open>\<open>s.split(sep)\<close> for a separator of one character: never an empty list.\<close>

fun split_on :: "char \<Rightarrow> string \<Rightarrow> string list" where
  "split_on sep [] = [[]]"
| "split_on sep (c # cs) =
     (if c = sep then [] # split_on sep cs
      else (case split_on sep cs of
              [] \<Rightarrow> [[c]]
            | p # ps \<Rightarrow> (c # p) # ps))"

definition startswith :: "string \<Rightarrow> string \<Rightarrow> bool" where
  "startswith s p = (take (length p) s = p)"

text \<open>\<open>os.path.join\<close> of \<open>posixpath\<close>: an absolute component restarts the path.\<close>

definition join2 :: "string \<Rightarrow> string \<Rightarrow> string" where
  "join2 path b =
     (if startswith b ''/'' then b
      else if path = [] \<or> (path \<noteq> [] \<and> last path = CHR ''/'') then path @ b
      else path @ ''/'' @ b)"

definition path_join :: "string \<Rightarrow> string list \<Rightarrow> string" where
  "path_join a p = foldl join2 a p"

subsection \<open>The world the script runs in\<close>

datatype node = Directory | File string

record world =
  environ :: "string \<rightharpoonup> string"
  files :: "string \<rightharpoonup> node"
  spawned :: "string list list"

definition path_exists :: "world \<Rightarrow> string \<Rightarrow> bool" where
  "path_exists w p = (files w p \<noteq> None)"

text \<open>\<open>os.getenv(name, default)\<close> with a string default.\<close>

definition getenv :: "world \<Rightarrow> string \<Rightarrow> string \<Rightarrow> string" where
  "getenv w name dflt = (case environ w name of None \<Rightarrow> dflt | Some v \<Rightarrow> v)"

text \<open>
  \<open>int(os.getenv(name, default))\<close> with an integer default: the default is returned as
  it is, a value that is set is parsed and may raise.
\<close>

definition getenv_int :: "nat \<Rightarrow> world \<Rightarrow> string \<Rightarrow> int \<Rightarrow> error + int" where
  "getenv_int max_str_digits w name dflt =
     (case environ w name of
        None \<Rightarrow> Inr dflt
      | Some v \<Rightarrow> (case py_int max_str_digits v of
                    None \<Rightarrow> Inl ValueError
                  | Some i \<Rightarrow> Inr i))"

subsection \<open>Version stamping\<close>

definition MAJOR :: int where "MAJOR = 0"
definition MINOR :: int where "MINOR = 10"
definition MICRO :: int where "MICRO = 0"
definition RELEASED :: bool where "RELEASED = False"

definition VERSION :: string where
  "VERSION = str_int MAJOR @ ''.'' @ str_int MINOR @ ''.'' @ str_int MICRO"

text \<open>
  The module-level import of Cython: any failure of the two imports leaves
  \<open>cythonize = None\<close> and \<open>cython_version = '(not available)'\<close>.
\<close>

definition import_cython :: "error + ('c \<times> string) \<Rightarrow> 'c option \<times> string" where
  "import_cython imported =
     (case imported of
        Inr (cy, ver) \<Rightarrow> (Some cy, ver)
      | Inl e \<Rightarrow> (None, ''(not available)''))"

text \<open>
  \<open>check_output cmd\<close> is the decoded output of \<open>subprocess.check_output(cmd, ...)\<close>, or the
  exception of the call or of the decoding. Running it is recorded in the world.
\<close>

definition spawn :: "string list \<Rightarrow> world \<Rightarrow> world" where
  "spawn cmd w = w\<lparr>spawned := spawned w @ [cmd]\<rparr>"

definition get_git_revision :: "(string list \<Rightarrow> error + string) \<Rightarrow> world \<Rightarrow> string \<times> world" where
  "get_git_revision check_output w =
     (if \<not> path_exists w ''.git'' then (''unknown'', w)
      else (case check_output [''git'', ''rev-parse'', ''HEAD''] of
              Inr out \<Rightarrow> (py_strip out, spawn [''git'', ''rev-parse'', ''HEAD''] w)
            | Inl e \<Rightarrow> (''unknown'', spawn [''git'', ''rev-parse'', ''HEAD''] w)))"

text \<open>
  The conversion \<open>int(descr.split('-')[1])\<close> is outside of the \<open>try\<close>: a description
  without a dash raises \<open>IndexError\<close>, a second field that is no integer \<open>ValueError\<close>.
\<close>

definition get_git_description ::
  "nat \<Rightarrow> (string list \<Rightarrow> error + string) \<Rightarrow> world \<Rightarrow> (error + int) \<times> world" where
  "get_git_description max_str_digits check_output w =
     (if \<not> path_exists w ''.git'' then (Inr 0, w)
      else (case check_output [''git'', ''describe'', ''--tags'', ''--long''] of
              Inl e \<Rightarrow> (Inr 0, spawn [''git'', ''describe'', ''--tags'', ''--long''] w)
            | Inr out \<Rightarrow>
                (let descr = py_strip out;
                     w' = spawn [''git'', ''describe'', ''--tags'', ''--long''] w
                 in case split_on CHR ''-'' descr of
                      p0 # p1 # ps \<Rightarrow>
                        (case py_int max_str_digits p1 of
                           None \<Rightarrow> (Inl ValueError, w')
                         | Some n \<Rightarrow> (Inr n, w'))
                    | _ \<Rightarrow> (Inl IndexError, w'))))"

definition get_version_info ::
  "nat \<Rightarrow> (string list \<Rightarrow> error + string) \<Rightarrow> world \<Rightarrow> (error + string \<times> string) \<times> world" where
  "get_version_info max_str_digits check_output w =
     (let full_version = VERSION;
          (git_rev, w1) = get_git_revision check_output w
      in if \<not> RELEASED then
           (case get_git_description max_str_digits check_output w1 of
              (Inl e, w2) \<Rightarrow> (Inl e, w2)
            | (Inr d, w2) \<Rightarrow>
                (Inr (full_version @ ''.dev'' @ str_int d @ ''+'' @ take 7 git_rev, git_rev), w2))
         else (Inr (full_version, git_rev), w1))"

definition version_py_content :: "string \<Rightarrow> string \<Rightarrow> string \<Rightarrow> string \<Rightarrow> string" where
  "version_py_content full_version git_rev numpy_ver cython_ver =
     ''# THIS FILE IS GENERATED FROM setup.py'' @ [CHR 0x0A] @
     ''# thus, it contains the version during compilation'' @ [CHR 0x0A] @
     ''# Copyright 2018-2023 TeNPy Developers, GNU GPLv3'' @ [CHR 0x0A] @
     ''version = '' @ [CHR 0x27] @ VERSION @ [CHR 0x27, CHR 0x0A] @
     ''short_version = '' @ [CHR 0x27] @ ''v'' @ [CHR 0x27] @ '' + version'' @ [CHR 0x0A] @
     ''released = '' @ str_bool RELEASED @ [CHR 0x0A] @
     ''full_version = '' @ [CHR 0x27] @ full_version @ [CHR 0x27, CHR 0x0A] @
     ''git_revision = '' @ [CHR 0x27] @ git_rev @ [CHR 0x27, CHR 0x0A] @
     ''numpy_version = '' @ [CHR 0x27] @ numpy_ver @ [CHR 0x27, CHR 0x0A] @
     ''cython_version = '' @ [CHR 0x27] @ cython_ver @ [CHR 0x27, CHR 0x0A]"

text \<open>
  \<open>write_underscore_version_py\<close> binds the formatted text to the local \<open>content\<close> and
  returns: the function body ends there, no file is opened.
\<close>

definition write_underscore_version_py ::
  "nat \<Rightarrow> (string list \<Rightarrow> error + string) \<Rightarrow> string \<Rightarrow> string \<Rightarrow> string \<Rightarrow> world
     \<Rightarrow> (error + unit) \<times> world" where
  "write_underscore_version_py max_str_digits check_output numpy_ver cython_ver filename w =
     (case get_version_info max_str_digits check_output w of
        (Inl e, w') \<Rightarrow> (Inl e, w')
      | (Inr (full_version, git_rev), w') \<Rightarrow>
          (let content = version_py_content full_version git_rev numpy_ver cython_ver
           in (Inr (), w')))"

subsection \<open>Configuring the Cython extension\<close>

datatype pyval = PyInt int | PyBool bool

record extension =
  ext_name :: string
  sources :: "string list"
  include_dirs :: "string list"
  libraries :: "string list"
  library_dirs :: "string list"
  define_macros :: "(string \<times> string option) list"
  language :: string

text \<open>
  The arguments of the call
  \<open>cythonize(extensions, compiler_directives=comp_direct, compile_time_env=cython_macros)\<close>.
\<close>

record cythonize_call =
  extensions :: "extension list"
  compiler_directives :: "string \<rightharpoonup> pyval"
  compile_time_env :: "string \<rightharpoonup> int"

text \<open>
  Lines 82 to 136 of \<open>setup_cython_extension\<close>: from the environment and the file system
  to the arguments of \<open>cythonize\<close>. The local variables keep their names; an assignment
  is a new binding of the name.
\<close>

definition cythonize_args :: "string \<Rightarrow> nat \<Rightarrow> world \<Rightarrow> error + cythonize_call" where
  "cythonize_args numpy_include max_str_digits w =
     (let include_dirs = [numpy_include];
          libs = [];
          lib_dirs = [];
          macros = [];
          cython_macros = Map.empty;
          comp_direct = [''language_level'' \<mapsto> PyInt 3, ''embedsignature'' \<mapsto> PyBool True]
      in case getenv_int max_str_digits w ''TENPY_OPTIMIZE'' 1 of
           Inl e \<Rightarrow> Inl e
         | Inr TENPY_OPTIMIZE \<Rightarrow>
      (let comp_direct =
             (if TENPY_OPTIMIZE > 1
              then comp_direct(''initializedcheck'' \<mapsto> PyBool False, ''boundscheck'' \<mapsto> PyBool False)
              else comp_direct);
           comp_direct =
             (if TENPY_OPTIMIZE < 1
              then comp_direct(''profile'' \<mapsto> PyBool True, ''linetrace'' \<mapsto> PyBool True)
              else comp_direct);
           HAVE_MKL = 0;
           MKL_DIR = getenv w ''MKL_DIR'' (getenv w ''MKLROOT'' (getenv w ''MKL_HOME'' []));
           (include_dirs, lib_dirs, HAVE_MKL) =
             (if MKL_DIR \<noteq> []
              then (include_dirs @ [path_join MKL_DIR [''include'']],
                    lib_dirs @ [path_join MKL_DIR [''lib'', ''intel64'']],
                    1)
              else (include_dirs, lib_dirs, HAVE_MKL));
           CONDA_PREFIX = environ w ''CONDA_PREFIX'';
           (include_dirs, lib_dirs, HAVE_MKL) =
             (case CONDA_PREFIX of
                None \<Rightarrow> (include_dirs, lib_dirs, HAVE_MKL)
              | Some prefix \<Rightarrow>
                  if prefix \<noteq> []
                  then (include_dirs @ [path_join prefix [''include'']],
                        lib_dirs @ [path_join prefix [''lib'']],
                        if HAVE_MKL = 0
                        then (if path_exists w (path_join prefix [''include'', ''mkl.h''])
                              then 1 else 0)
                        else HAVE_MKL)
                  else (include_dirs, lib_dirs, HAVE_MKL))
       in case getenv_int max_str_digits w ''HAVE_MKL'' HAVE_MKL of
            Inl e \<Rightarrow> Inl e
          | Inr HAVE_MKL \<Rightarrow>
       (let cython_macros = cython_macros(''HAVE_MKL'' \<mapsto> HAVE_MKL);
            (libs, macros, cython_macros) =
              (if HAVE_MKL \<noteq> 0
               then (libs @ [''mkl_rt'', ''pthread'', ''iomp5''],
                     if startswith (getenv w ''MKL_INTERFACE_LAYER'' ''LP64'') ''ILP64''
                     then macros @ [(''MKL_ILP64'', None)] else macros,
                     if startswith (getenv w ''MKL_INTERFACE_LAYER'' ''LP64'') ''ILP64''
                     then cython_macros(''MKL_INTERFACE_LAYER'' \<mapsto> 1)
                     else cython_macros(''MKL_INTERFACE_LAYER'' \<mapsto> 0))
               else (libs, macros, cython_macros));
            extensions =
              [\<lparr>ext_name = ''*'',
                sources = [''tenpy/linalg/*.pyx''],
                include_dirs = include_dirs,
                libraries = libs,
                library_dirs = lib_dirs,
                define_macros = macros,
                language = ''c++''\<rparr>]
        in Inr \<lparr>extensions = extensions,
                compiler_directives = comp_direct,
                compile_time_env = cython_macros\<rparr>)))"

text \<open>
  \<open>setup_cython_extension\<close>: without Cython the empty list, before anything is read;
  otherwise whatever \<open>cythonize\<close> returns on the arguments above.
\<close>

definition setup_cython_extension ::
  "(cythonize_call \<Rightarrow> 'm list) option \<Rightarrow> string \<Rightarrow> nat \<Rightarrow> world \<Rightarrow> error + 'm list" where
  "setup_cython_extension cythonize numpy_include max_str_digits w =
     (case cythonize of
        None \<Rightarrow> Inr []
      | Some cy \<Rightarrow>
          (case cythonize_args numpy_include max_str_digits w of
             Inl e \<Rightarrow> Inl e
           | Inr call \<Rightarrow> Inr (cy call)))"

subsection \<open>Preconditions\<close>

text \<open>
  The variable \<open>name\<close> is unset or holds an integer literal: \<open>int(os.getenv(name, d))\<close>
  does not raise.
\<close>

definition env_int_ok :: "nat \<Rightarrow> world \<Rightarrow> string \<Rightarrow> bool" where
  "env_int_ok max_str_digits w name =
     (case environ w name of None \<Rightarrow> True | Some v \<Rightarrow> py_int max_str_digits v \<noteq> None)"

subsection \<open>Builds over time\<close>



section \<open>Properties of the extension set-up\<close>

lemma getenv_int_ok:
  assumes "env_int_ok lim w name"
  shows "\<exists>f. \<forall>d. getenv_int lim w name d = Inr (f d)"
proof (cases "environ w name")
  case None
  then have "\<forall>d. getenv_int lim w name d = Inr d"
    by (simp add: getenv_int_def)
  then show ?thesis by (intro exI [of _ "\<lambda>d. d"]) simp
next
  case (Some v)
  with assms obtain i where "py_int lim v = Some i"
    by (auto simp: env_int_ok_def)
  with Some have "\<forall>d. getenv_int lim w name d = Inr i"
    by (simp add: getenv_int_def)
  then show ?thesis by (intro exI [of _ "\<lambda>_. i"]) simp
qed

text \<open>With Cython present, the function returns what \<open>cythonize\<close> makes of the arguments.\<close>

lemma setup_with_cython:
  "setup_cython_extension (Some cy) inc lim w = map_sum id cy (cythonize_args inc lim w)"
  by (simp add: setup_cython_extension_def split: sum.splits)

text \<open>The compiler directives as a function of the level: three cases.\<close>

lemma cythonize_args_directives:
  assumes "getenv_int lim w ''TENPY_OPTIMIZE'' 1 = Inr level"
    and "env_int_ok lim w ''HAVE_MKL''"
  shows "\<exists>call. cythonize_args inc lim w = Inr call \<and>
           compiler_directives call =
             (if 1 < level
              then [''language_level'' \<mapsto> PyInt 3, ''embedsignature'' \<mapsto> PyBool True,
                    ''initializedcheck'' \<mapsto> PyBool False, ''boundscheck'' \<mapsto> PyBool False]
              else if level < 1
              then [''language_level'' \<mapsto> PyInt 3, ''embedsignature'' \<mapsto> PyBool True,
                    ''profile'' \<mapsto> PyBool True, ''linetrace'' \<mapsto> PyBool True]
              else [''language_level'' \<mapsto> PyInt 3, ''embedsignature'' \<mapsto> PyBool True])"
proof -
  obtain f where f: "\<And>d. getenv_int lim w ''HAVE_MKL'' d = Inr (f d)"
    using getenv_int_ok [OF assms(2)] by blast
  show ?thesis
    unfolding cythonize_args_def Let_def
    by (simp add: assms(1) f split: prod.splits option.splits)
qed

lemma setup_directives:
  assumes "getenv_int lim w ''TENPY_OPTIMIZE'' 1 = Inr level"
    and "env_int_ok lim w ''HAVE_MKL''"
  shows "\<exists>call. (\<forall>cy. setup_cython_extension (Some cy) inc lim w = Inr (cy call)) \<and>
           compiler_directives call =
             (if 1 < level
              then [''language_level'' \<mapsto> PyInt 3, ''embedsignature'' \<mapsto> PyBool True,
                    ''initializedcheck'' \<mapsto> PyBool False, ''boundscheck'' \<mapsto> PyBool False]
              else if level < 1
              then [''language_level'' \<mapsto> PyInt 3, ''embedsignature'' \<mapsto> PyBool True,
                    ''profile'' \<mapsto> PyBool True, ''linetrace'' \<mapsto> PyBool True]
              else [''language_level'' \<mapsto> PyInt 3, ''embedsignature'' \<mapsto> PyBool True])"
  using cythonize_args_directives [OF assms, of inc]
  by (auto simp: setup_with_cython)

text \<open>
  The part of the arguments that is not a compiler directive does not depend on the
  level: two worlds with the same files and the same environment, \<open>TENPY_OPTIMIZE\<close>
  apart, give the same extensions and the same compile-time environment.
\<close>

lemma cythonize_args_level_independent:
  assumes l1: "getenv_int lim w1 ''TENPY_OPTIMIZE'' 1 = Inr l1"
    and l2: "getenv_int lim w2 ''TENPY_OPTIMIZE'' 1 = Inr l2"
    and fs: "files w1 = files w2"
    and env: "\<And>name. name \<noteq> ''TENPY_OPTIMIZE'' \<Longrightarrow> environ w1 name = environ w2 name"
  shows "map_sum id (\<lambda>c. (extensions c, compile_time_env c)) (cythonize_args inc lim w1) =
         map_sum id (\<lambda>c. (extensions c, compile_time_env c)) (cythonize_args inc lim w2)"
proof -
  have g: "getenv w1 ''MKL_DIR'' = getenv w2 ''MKL_DIR''"
    "getenv w1 ''MKLROOT'' = getenv w2 ''MKLROOT''"
    "getenv w1 ''MKL_HOME'' = getenv w2 ''MKL_HOME''"
    "getenv w1 ''MKL_INTERFACE_LAYER'' = getenv w2 ''MKL_INTERFACE_LAYER''"
    by (rule ext, simp add: getenv_def env)+
  have gi: "getenv_int lim w1 ''HAVE_MKL'' = getenv_int lim w2 ''HAVE_MKL''"
    by (rule ext) (simp add: getenv_int_def env)
  have pe: "path_exists w1 = path_exists w2"
    by (rule ext) (simp add: path_exists_def fs)
  have c: "environ w1 ''CONDA_PREFIX'' = environ w2 ''CONDA_PREFIX''"
    by (simp add: env)
  show ?thesis
    unfolding cythonize_args_def l1 l2 g gi pe c
    by (simp add: Let_def split_def split: sum.split split del: if_split)
qed

text \<open>Whenever \<open>cythonize\<close> is called, the directives are those of the level.\<close>

lemma cythonize_args_Inr_directives:
  assumes l: "getenv_int lim w ''TENPY_OPTIMIZE'' 1 = Inr level"
    and c: "cythonize_args inc lim w = Inr call"
  shows "compiler_directives call =
           (if 1 < level
            then [''language_level'' \<mapsto> PyInt 3, ''embedsignature'' \<mapsto> PyBool True,
                  ''initializedcheck'' \<mapsto> PyBool False, ''boundscheck'' \<mapsto> PyBool False]
            else if level < 1
            then [''language_level'' \<mapsto> PyInt 3, ''embedsignature'' \<mapsto> PyBool True,
                  ''profile'' \<mapsto> PyBool True, ''linetrace'' \<mapsto> PyBool True]
            else [''language_level'' \<mapsto> PyInt 3, ''embedsignature'' \<mapsto> PyBool True])"
proof (cases "env_int_ok lim w ''HAVE_MKL''")
  case True
  from cythonize_args_directives [OF l True, of inc] c show ?thesis
    by (elim exE conjE) simp
next
  case False
  then have "\<And>d. getenv_int lim w ''HAVE_MKL'' d = Inl ValueError"
    by (auto simp: env_int_ok_def getenv_int_def split: option.splits)
  then have "cythonize_args inc lim w = Inl ValueError"
    unfolding cythonize_args_def Let_def split_def
    by (simp add: l split del: if_split)
  with c show ?thesis by simp
qed

text \<open>
  C1, as amended: two runs of \<open>setup_cython_extension\<close> in the same world, one with
  \<open>TENPY_OPTIMIZE\<close> at \<open>v1\<close> and one with it at \<open>v2\<close>, each value being an optimization
  level (unset, or an integer literal). Either both raise the same error (that of
  \<open>HAVE_MKL\<close>), or both call \<open>cythonize\<close>, with the same list of extensions (name,
  sources, include directories, libraries, library directories, C macros, language), the
  same Cython compile-time macros, and compiler directives that agree on every key but
  \<open>boundscheck\<close>, \<open>initializedcheck\<close>, \<open>profile\<close> and \<open>linetrace\<close>.
\<close>

theorem level_changes_directives_only:
  assumes "env_int_ok lim (w\<lparr>environ := (environ w)(''TENPY_OPTIMIZE'' := v1)\<rparr>) ''TENPY_OPTIMIZE''"
    and "env_int_ok lim (w\<lparr>environ := (environ w)(''TENPY_OPTIMIZE'' := v2)\<rparr>) ''TENPY_OPTIMIZE''"
  shows "(\<exists>e. \<forall>cy :: cythonize_call \<Rightarrow> 'm list.
            setup_cython_extension (Some cy) inc lim
              (w\<lparr>environ := (environ w)(''TENPY_OPTIMIZE'' := v1)\<rparr>) = Inl e \<and>
            setup_cython_extension (Some cy) inc lim
              (w\<lparr>environ := (environ w)(''TENPY_OPTIMIZE'' := v2)\<rparr>) = Inl e) \<or>
         (\<exists>c1 c2.
            (\<forall>cy :: cythonize_call \<Rightarrow> 'm list.
               setup_cython_extension (Some cy) inc lim
                 (w\<lparr>environ := (environ w)(''TENPY_OPTIMIZE'' := v1)\<rparr>) = Inr (cy c1) \<and>
               setup_cython_extension (Some cy) inc lim
                 (w\<lparr>environ := (environ w)(''TENPY_OPTIMIZE'' := v2)\<rparr>) = Inr (cy c2)) \<and>
            extensions c1 = extensions c2 \<and>
            compile_time_env c1 = compile_time_env c2 \<and>
            (\<forall>k. k \<notin> {''boundscheck'', ''initializedcheck'', ''profile'', ''linetrace''} \<longrightarrow>
                 compiler_directives c1 k = compiler_directives c2 k))"
proof -
  let ?w1 = "w\<lparr>environ := (environ w)(''TENPY_OPTIMIZE'' := v1)\<rparr>"
  let ?w2 = "w\<lparr>environ := (environ w)(''TENPY_OPTIMIZE'' := v2)\<rparr>"
  obtain f1 where "\<forall>d. getenv_int lim ?w1 ''TENPY_OPTIMIZE'' d = Inr (f1 d)"
    using getenv_int_ok [OF assms(1)] by blast
  then have l1: "getenv_int lim ?w1 ''TENPY_OPTIMIZE'' 1 = Inr (f1 1)" by simp
  obtain f2 where "\<forall>d. getenv_int lim ?w2 ''TENPY_OPTIMIZE'' d = Inr (f2 d)"
    using getenv_int_ok [OF assms(2)] by blast
  then have l2: "getenv_int lim ?w2 ''TENPY_OPTIMIZE'' 1 = Inr (f2 1)" by simp
  have eq: "map_sum id (\<lambda>c. (extensions c, compile_time_env c)) (cythonize_args inc lim ?w1) =
            map_sum id (\<lambda>c. (extensions c, compile_time_env c)) (cythonize_args inc lim ?w2)"
    by (rule cythonize_args_level_independent [OF l1 l2]) simp_all
  show ?thesis
  proof (cases "cythonize_args inc lim ?w1")
    case (Inl e)
    with eq have "cythonize_args inc lim ?w2 = Inl e"
      by (cases "cythonize_args inc lim ?w2") simp_all
    with Inl show ?thesis
      by (simp add: setup_with_cython)
  next
    case (Inr c1)
    with eq obtain c2 where c2: "cythonize_args inc lim ?w2 = Inr c2"
      and e: "extensions c1 = extensions c2"
      and m: "compile_time_env c1 = compile_time_env c2"
      by (cases "cythonize_args inc lim ?w2") auto
    note d1 = cythonize_args_Inr_directives [OF l1 Inr]
    note d2 = cythonize_args_Inr_directives [OF l2 c2]
    have d: "\<forall>k. k \<notin> {''boundscheck'', ''initializedcheck'', ''profile'', ''linetrace''} \<longrightarrow>
               compiler_directives c1 k = compiler_directives c2 k"
      unfolding d1 d2 by simp
    have s: "\<forall>cy :: cythonize_call \<Rightarrow> 'm list.
               setup_cython_extension (Some cy) inc lim ?w1 = Inr (cy c1) \<and>
               setup_cython_extension (Some cy) inc lim ?w2 = Inr (cy c2)"
      by (simp add: setup_with_cython Inr c2)
    show ?thesis
      by (rule disjI2, rule exI [of _ c1], rule exI [of _ c2]) (intro conjI s e m d)
  qed
qed

theorem level_changes_directives_only_witness:
  "\<exists>c1 c2.
      (\<forall>cy :: cythonize_call \<Rightarrow> cythonize_call list.
         setup_cython_extension (Some cy) ''/usr/include/numpy'' 4300
           \<lparr>environ = [''MKLROOT'' \<mapsto> ''/opt/intel/mkl'', ''TENPY_OPTIMIZE'' \<mapsto> ''0''],
            files = Map.empty, spawned = []\<rparr> = Inr (cy c1) \<and>
         setup_cython_extension (Some cy) ''/usr/include/numpy'' 4300
           \<lparr>environ = [''MKLROOT'' \<mapsto> ''/opt/intel/mkl'', ''TENPY_OPTIMIZE'' \<mapsto> ''2''],
            files = Map.empty, spawned = []\<rparr> = Inr (cy c2)) \<and>
      extensions c1 = extensions c2 \<and>
      compile_time_env c1 = compile_time_env c2 \<and>
      compiler_directives c1 ''language_level'' = compiler_directives c2 ''language_level'' \<and>
      compiler_directives c1 ''embedsignature'' = compiler_directives c2 ''embedsignature''"
  (is "\<exists>c1 c2. ?S c1 c2 \<and> ?E c1 c2 \<and> ?M c1 c2 \<and> ?L c1 c2 \<and> ?G c1 c2")
proof -
  let ?w = "\<lparr>environ = [''MKLROOT'' \<mapsto> ''/opt/intel/mkl''], files = Map.empty, spawned = []\<rparr>"
  have p0: "py_int 4300 ''0'' = Some 0" by code_simp
  have p2: "py_int 4300 ''2'' = Some 2" by code_simp
  have a: "env_int_ok 4300 (?w\<lparr>environ := (environ ?w)(''TENPY_OPTIMIZE'' := Some ''0'')\<rparr>)
             ''TENPY_OPTIMIZE''"
    by (simp add: env_int_ok_def p0)
  have b: "env_int_ok 4300 (?w\<lparr>environ := (environ ?w)(''TENPY_OPTIMIZE'' := Some ''2'')\<rparr>)
             ''TENPY_OPTIMIZE''"
    by (simp add: env_int_ok_def p2)
  have r: "\<exists>c. setup_cython_extension (Some (\<lambda>c. [c])) ''/usr/include/numpy'' 4300
           \<lparr>environ = [''MKLROOT'' \<mapsto> ''/opt/intel/mkl'', ''TENPY_OPTIMIZE'' \<mapsto> ''0''],
            files = Map.empty, spawned = []\<rparr> = Inr c"
    by (simp add: setup_with_cython cythonize_args_def getenv_int_def getenv_def Let_def p0)
  have "\<exists>c1 c2. ?S c1 c2 \<and> ?E c1 c2 \<and> ?M c1 c2 \<and>
          (\<forall>k. k \<notin> {''boundscheck'', ''initializedcheck'', ''profile'', ''linetrace''} \<longrightarrow>
               compiler_directives c1 k = compiler_directives c2 k)"
    using level_changes_directives_only
      [where ?'m = cythonize_call, OF a b, of "''/usr/include/numpy''"] r
    by auto
  then obtain c1 c2 where s: "?S c1 c2" and e: "?E c1 c2" and m: "?M c1 c2"
    and d: "\<forall>k. k \<notin> {''boundscheck'', ''initializedcheck'', ''profile'', ''linetrace''} \<longrightarrow>
                compiler_directives c1 k = compiler_directives c2 k"
    by (elim exE conjE)
  from d have l: "?L c1 c2" and g: "?G c1 c2" by simp_all
  show ?thesis
    by (rule exI [of _ c1], rule exI [of _ c2]) (intro conjI s e m l g)
qed

text \<open>
  C1 as the spec states it, for every pair of values, fails where one value is no integer:
  with \<open>TENPY_OPTIMIZE=1\<close> the extension is configured, with \<open>TENPY_OPTIMIZE=fast\<close> line 93
  raises \<open>ValueError\<close> and nothing is produced.
\<close>

theorem non_integer_level_raises:
  "map_sum id (map extensions)
     (setup_cython_extension (Some (\<lambda>c. [c])) ''/usr/include/numpy'' 4300
        \<lparr>environ = [''TENPY_OPTIMIZE'' \<mapsto> ''1''], files = Map.empty, spawned = []\<rparr>)
     = Inr [[\<lparr>ext_name = ''*'', sources = [''tenpy/linalg/*.pyx''],
              include_dirs = [''/usr/include/numpy''], libraries = [], library_dirs = [],
              define_macros = [], language = ''c++''\<rparr>]] \<and>
   setup_cython_extension (Some (\<lambda>c. [c])) ''/usr/include/numpy'' 4300
     \<lparr>environ = [''TENPY_OPTIMIZE'' \<mapsto> ''fast''], files = Map.empty, spawned = []\<rparr>
     = Inl ValueError"
proof -
  have p1: "py_int 4300 ''1'' = Some 1" by code_simp
  have pf: "py_int 4300 ''fast'' = None" by code_simp
  show ?thesis
    by (simp add: setup_with_cython cythonize_args_def getenv_int_def getenv_def Let_def p1 pf)
qed

text \<open>
  C2: for every integer level read from \<open>TENPY_OPTIMIZE\<close> (the variable \<open>HAVE_MKL\<close> being
  unset or an integer, so that the function returns), a level of 2 or more sets the
  directives \<open>boundscheck\<close> and \<open>initializedcheck\<close> to \<open>False\<close> in the call of
  \<open>cythonize\<close>, and a level of 1 or less leaves both out of the directives, that is at
  Cython's checked defaults.
\<close>

theorem unchecked_directives_from_level_two:
  assumes "getenv_int lim w ''TENPY_OPTIMIZE'' 1 = Inr level"
    and "env_int_ok lim w ''HAVE_MKL''"
  shows "\<exists>call. (\<forall>cy :: cythonize_call \<Rightarrow> 'm list.
                    setup_cython_extension (Some cy) inc lim w = Inr (cy call)) \<and>
           (2 \<le> level \<longrightarrow>
              compiler_directives call ''boundscheck'' = Some (PyBool False) \<and>
              compiler_directives call ''initializedcheck'' = Some (PyBool False)) \<and>
           (level \<le> 1 \<longrightarrow>
              compiler_directives call ''boundscheck'' = None \<and>
              compiler_directives call ''initializedcheck'' = None)"
proof -
  from setup_directives [OF assms, of inc]
  obtain call where c: "\<forall>cy :: cythonize_call \<Rightarrow> 'm list.
                           setup_cython_extension (Some cy) inc lim w = Inr (cy call)"
    and d: "compiler_directives call =
             (if 1 < level
              then [''language_level'' \<mapsto> PyInt 3, ''embedsignature'' \<mapsto> PyBool True,
                    ''initializedcheck'' \<mapsto> PyBool False, ''boundscheck'' \<mapsto> PyBool False]
              else if level < 1
              then [''language_level'' \<mapsto> PyInt 3, ''embedsignature'' \<mapsto> PyBool True,
                    ''profile'' \<mapsto> PyBool True, ''linetrace'' \<mapsto> PyBool True]
              else [''language_level'' \<mapsto> PyInt 3, ''embedsignature'' \<mapsto> PyBool True])"
    by blast
  have "2 \<le> level \<longrightarrow>
      compiler_directives call ''boundscheck'' = Some (PyBool False) \<and>
      compiler_directives call ''initializedcheck'' = Some (PyBool False)"
    by (simp add: d)
  moreover have "level \<le> 1 \<longrightarrow>
      compiler_directives call ''boundscheck'' = None \<and>
      compiler_directives call ''initializedcheck'' = None"
    by (simp add: d)
  ultimately show ?thesis using c by blast
qed

theorem unchecked_directives_from_level_two_witness:
  "(\<exists>call. (\<forall>cy :: cythonize_call \<Rightarrow> cythonize_call list.
        setup_cython_extension (Some cy) ''/usr/include/numpy'' 4300
          \<lparr>environ = [''TENPY_OPTIMIZE'' \<mapsto> ''2''], files = Map.empty, spawned = []\<rparr>
        = Inr (cy call)) \<and>
      compiler_directives call ''boundscheck'' = Some (PyBool False) \<and>
      compiler_directives call ''initializedcheck'' = Some (PyBool False)) \<and>
   (\<exists>call. (\<forall>cy :: cythonize_call \<Rightarrow> cythonize_call list.
        setup_cython_extension (Some cy) ''/usr/include/numpy'' 4300
          \<lparr>environ = [''TENPY_OPTIMIZE'' \<mapsto> ''1''], files = Map.empty, spawned = []\<rparr>
        = Inr (cy call)) \<and>
      compiler_directives call ''boundscheck'' = None \<and>
      compiler_directives call ''initializedcheck'' = None)"
proof -
  let ?w2 = "\<lparr>environ = [''TENPY_OPTIMIZE'' \<mapsto> ''2''], files = Map.empty, spawned = []\<rparr>"
  let ?w1 = "\<lparr>environ = [''TENPY_OPTIMIZE'' \<mapsto> ''1''], files = Map.empty, spawned = []\<rparr>"
  have l2: "getenv_int 4300 ?w2 ''TENPY_OPTIMIZE'' 1 = Inr 2" by code_simp
  have l1: "getenv_int 4300 ?w1 ''TENPY_OPTIMIZE'' 1 = Inr 1" by code_simp
  have m2: "env_int_ok 4300 ?w2 ''HAVE_MKL''" by (simp add: env_int_ok_def)
  have m1: "env_int_ok 4300 ?w1 ''HAVE_MKL''" by (simp add: env_int_ok_def)
  show ?thesis
    using unchecked_directives_from_level_two [OF l2 m2, of "''/usr/include/numpy''"]
      unchecked_directives_from_level_two [OF l1 m1, of "''/usr/include/numpy''"]
    by simp
qed

text \<open>
  The nested defaults of line 101 give the value of the first of \<open>MKL_DIR\<close>, \<open>MKLROOT\<close>,
  \<open>MKL_HOME\<close> that is set, also when that value is empty.
\<close>

lemma first_set_mkl_variable:
  "(getenv w ''MKL_DIR'' (getenv w ''MKLROOT'' (getenv w ''MKL_HOME'' [])) \<noteq> []) =
   (case environ w ''MKL_DIR'' of
      Some v \<Rightarrow> v \<noteq> []
    | None \<Rightarrow>
        (case environ w ''MKLROOT'' of
           Some v \<Rightarrow> v \<noteq> []
         | None \<Rightarrow> (case environ w ''MKL_HOME'' of Some v \<Rightarrow> v \<noteq> [] | None \<Rightarrow> False)))"
  by (simp add: getenv_def split: option.splits)

lemma cythonize_args_have_mkl:
  assumes l: "getenv_int lim w ''TENPY_OPTIMIZE'' 1 = Inr level"
    and h: "\<And>d. getenv_int lim w ''HAVE_MKL'' d = Inr (f d)"
  shows "map_sum id (\<lambda>c. (compile_time_env c ''HAVE_MKL'', map libraries (extensions c)))
           (cythonize_args inc lim w) =
         Inr (Some (f (if getenv w ''MKL_DIR'' (getenv w ''MKLROOT'' (getenv w ''MKL_HOME'' [])) \<noteq> []
                        \<or> (\<exists>p. environ w ''CONDA_PREFIX'' = Some p \<and> p \<noteq> [] \<and>
                                path_exists w (path_join p [''include'', ''mkl.h'']))
                      then 1 else 0)),
              [if f (if getenv w ''MKL_DIR'' (getenv w ''MKLROOT'' (getenv w ''MKL_HOME'' [])) \<noteq> []
                        \<or> (\<exists>p. environ w ''CONDA_PREFIX'' = Some p \<and> p \<noteq> [] \<and>
                                path_exists w (path_join p [''include'', ''mkl.h'']))
                      then 1 else 0) = 0
               then [] else [''mkl_rt'', ''pthread'', ''iomp5'']])"
proof (cases "environ w ''CONDA_PREFIX''")
  case None
  show ?thesis
  proof (cases "getenv w ''MKL_DIR'' (getenv w ''MKLROOT'' (getenv w ''MKL_HOME'' [])) = []")
    case True
    show ?thesis
      unfolding cythonize_args_def Let_def by (simp add: l h None True)
  next
    case False
    show ?thesis
      unfolding cythonize_args_def Let_def by (simp add: l h None False)
  qed
next
  case (Some p)
  show ?thesis
  proof (cases "getenv w ''MKL_DIR'' (getenv w ''MKLROOT'' (getenv w ''MKL_HOME'' [])) = []")
    case True
    show ?thesis
      unfolding cythonize_args_def Let_def by (simp add: l h Some True)
  next
    case False
    show ?thesis
      unfolding cythonize_args_def Let_def by (simp add: l h Some False)
  qed
qed

text \<open>
  C3, as amended: when \<open>TENPY_OPTIMIZE\<close> and \<open>HAVE_MKL\<close> are unset or integer literals,
  the function calls \<open>cythonize\<close>, and
  \<^item> with \<open>HAVE_MKL\<close> unset, the macro \<open>HAVE_MKL\<close> is 1 exactly when the first of
    \<open>MKL_DIR\<close>, \<open>MKLROOT\<close>, \<open>MKL_HOME\<close> that is set (in this order) is not empty, or
    \<open>CONDA_PREFIX\<close> is set, not empty, and \<open>mkl.h\<close> exists under its \<open>include\<close>; it is 0
    otherwise;
  \<^item> with \<open>HAVE_MKL\<close> set to an integer literal, the macro is that integer;
  \<^item> the libraries of the extension are \<open>mkl_rt\<close>, \<open>pthread\<close>, \<open>iomp5\<close> exactly when the
    macro is not 0, and there is no library otherwise.
\<close>

theorem mkl_detection_and_linking:
  assumes "env_int_ok lim w ''TENPY_OPTIMIZE''"
    and "env_int_ok lim w ''HAVE_MKL''"
  shows "\<exists>call.
           (\<forall>cy :: cythonize_call \<Rightarrow> 'm list.
              setup_cython_extension (Some cy) inc lim w = Inr (cy call)) \<and>
           (environ w ''HAVE_MKL'' = None \<longrightarrow>
              compile_time_env call ''HAVE_MKL'' =
                Some (if (case environ w ''MKL_DIR'' of
                            Some v \<Rightarrow> v \<noteq> []
                          | None \<Rightarrow>
                              (case environ w ''MKLROOT'' of
                                 Some v \<Rightarrow> v \<noteq> []
                               | None \<Rightarrow>
                                   (case environ w ''MKL_HOME'' of
                                      Some v \<Rightarrow> v \<noteq> []
                                    | None \<Rightarrow> False)))
                         \<or> (\<exists>p. environ w ''CONDA_PREFIX'' = Some p \<and> p \<noteq> [] \<and>
                                 path_exists w (path_join p [''include'', ''mkl.h'']))
                      then 1 else 0)) \<and>
           (\<forall>s h. environ w ''HAVE_MKL'' = Some s \<and> py_int lim s = Some h \<longrightarrow>
              compile_time_env call ''HAVE_MKL'' = Some h) \<and>
           map libraries (extensions call) =
             [if compile_time_env call ''HAVE_MKL'' = Some 0 then []
              else [''mkl_rt'', ''pthread'', ''iomp5'']]"
proof -
  obtain g where "\<forall>d. getenv_int lim w ''TENPY_OPTIMIZE'' d = Inr (g d)"
    using getenv_int_ok [OF assms(1)] by blast
  then have l: "getenv_int lim w ''TENPY_OPTIMIZE'' 1 = Inr (g 1)" by simp
  obtain f where f: "\<And>d. getenv_int lim w ''HAVE_MKL'' d = Inr (f d)"
    using getenv_int_ok [OF assms(2)] by blast
  let ?det = "if getenv w ''MKL_DIR'' (getenv w ''MKLROOT'' (getenv w ''MKL_HOME'' [])) \<noteq> []
                 \<or> (\<exists>p. environ w ''CONDA_PREFIX'' = Some p \<and> p \<noteq> [] \<and>
                         path_exists w (path_join p [''include'', ''mkl.h'']))
              then 1 else (0 :: int)"
  note m = cythonize_args_have_mkl [of lim w "g 1" f inc, OF l f]
  obtain call where c: "cythonize_args inc lim w = Inr call"
    using m by (cases "cythonize_args inc lim w") simp_all
  from m have hm: "compile_time_env call ''HAVE_MKL'' = Some (f ?det)"
    unfolding c by simp
  from m have lb: "map libraries (extensions call) =
               [if f ?det = 0 then [] else [''mkl_rt'', ''pthread'', ''iomp5'']]"
    unfolding c by simp
  have A: "\<forall>cy :: cythonize_call \<Rightarrow> 'm list.
          setup_cython_extension (Some cy) inc lim w = Inr (cy call)"
    by (simp add: setup_with_cython c)
  have B: "environ w ''HAVE_MKL'' = None \<longrightarrow>
      compile_time_env call ''HAVE_MKL'' =
        Some (if (case environ w ''MKL_DIR'' of
                    Some v \<Rightarrow> v \<noteq> []
                  | None \<Rightarrow>
                      (case environ w ''MKLROOT'' of
                         Some v \<Rightarrow> v \<noteq> []
                       | None \<Rightarrow>
                           (case environ w ''MKL_HOME'' of
                              Some v \<Rightarrow> v \<noteq> []
                            | None \<Rightarrow> False)))
                 \<or> (\<exists>p. environ w ''CONDA_PREFIX'' = Some p \<and> p \<noteq> [] \<and>
                         path_exists w (path_join p [''include'', ''mkl.h'']))
              then 1 else 0)"
  proof
    assume u: "environ w ''HAVE_MKL'' = None"
    have "Inr (f ?det) = getenv_int lim w ''HAVE_MKL'' ?det" by (simp only: f)
    also have "\<dots> = Inr ?det" by (simp only: getenv_int_def u option.case)
    finally have "f ?det = ?det" by simp
    with hm show "compile_time_env call ''HAVE_MKL'' =
        Some (if (case environ w ''MKL_DIR'' of
                    Some v \<Rightarrow> v \<noteq> []
                  | None \<Rightarrow>
                      (case environ w ''MKLROOT'' of
                         Some v \<Rightarrow> v \<noteq> []
                       | None \<Rightarrow>
                           (case environ w ''MKL_HOME'' of
                              Some v \<Rightarrow> v \<noteq> []
                            | None \<Rightarrow> False)))
                 \<or> (\<exists>p. environ w ''CONDA_PREFIX'' = Some p \<and> p \<noteq> [] \<and>
                         path_exists w (path_join p [''include'', ''mkl.h'']))
              then 1 else 0)"
      by (simp only: first_set_mkl_variable)
  qed
  have C: "\<forall>s h. environ w ''HAVE_MKL'' = Some s \<and> py_int lim s = Some h \<longrightarrow>
      compile_time_env call ''HAVE_MKL'' = Some h"
  proof (intro allI impI)
    fix s h
    assume a: "environ w ''HAVE_MKL'' = Some s \<and> py_int lim s = Some h"
    have "Inr (f ?det) = getenv_int lim w ''HAVE_MKL'' ?det" by (simp only: f)
    also from a have "\<dots> = Inr h" by (simp add: getenv_int_def)
    finally have "f ?det = h" by simp
    with hm show "compile_time_env call ''HAVE_MKL'' = Some h" by simp
  qed
  have D: "map libraries (extensions call) =
      [if compile_time_env call ''HAVE_MKL'' = Some 0 then []
       else [''mkl_rt'', ''pthread'', ''iomp5'']]"
    by (simp only: lb hm option.inject)
  show ?thesis
    using A B C D by (intro exI [of _ call] conjI)
qed

theorem mkl_detection_and_linking_witness:
  "(\<exists>call.
      (\<forall>cy :: cythonize_call \<Rightarrow> cythonize_call list.
         setup_cython_extension (Some cy) ''/usr/include/numpy'' 4300
           \<lparr>environ = [''MKLROOT'' \<mapsto> ''/opt/intel/mkl''], files = Map.empty, spawned = []\<rparr>
         = Inr (cy call)) \<and>
      compile_time_env call ''HAVE_MKL'' = Some 1 \<and>
      map libraries (extensions call) = [[''mkl_rt'', ''pthread'', ''iomp5'']]) \<and>
   (\<exists>call.
      (\<forall>cy :: cythonize_call \<Rightarrow> cythonize_call list.
         setup_cython_extension (Some cy) ''/usr/include/numpy'' 4300
           \<lparr>environ = [''MKLROOT'' \<mapsto> ''/opt/intel/mkl'', ''HAVE_MKL'' \<mapsto> ''0''],
            files = Map.empty, spawned = []\<rparr>
         = Inr (cy call)) \<and>
      compile_time_env call ''HAVE_MKL'' = Some 0 \<and>
      map libraries (extensions call) = [[]])"
  (is "(\<exists>call. ?A1 call \<and> ?B1 call \<and> ?L1 call) \<and> (\<exists>call. ?A0 call \<and> ?B0 call \<and> ?L0 call)")
proof -
  let ?w1 = "\<lparr>environ = [''MKLROOT'' \<mapsto> ''/opt/intel/mkl''], files = Map.empty, spawned = []\<rparr>"
  let ?w0 = "\<lparr>environ = [''MKLROOT'' \<mapsto> ''/opt/intel/mkl'', ''HAVE_MKL'' \<mapsto> ''0''],
              files = Map.empty, spawned = []\<rparr>"
  have p0: "py_int 4300 ''0'' = Some 0" by code_simp
  have t1: "env_int_ok 4300 ?w1 ''TENPY_OPTIMIZE''" by (simp add: env_int_ok_def)
  have h1: "env_int_ok 4300 ?w1 ''HAVE_MKL''" by (simp add: env_int_ok_def)
  have t0: "env_int_ok 4300 ?w0 ''TENPY_OPTIMIZE''" by (simp add: env_int_ok_def)
  have h0: "env_int_ok 4300 ?w0 ''HAVE_MKL''" by (simp add: env_int_ok_def p0)
  have w1: "\<exists>call. ?A1 call \<and> ?B1 call \<and> ?L1 call"
    using mkl_detection_and_linking [where ?'m = cythonize_call, OF t1 h1, of "''/usr/include/numpy''"]
    apply (elim exE conjE)
    subgoal for call
      by (intro exI [of _ call]) simp
    done
  have w0: "\<exists>call. ?A0 call \<and> ?B0 call \<and> ?L0 call"
    using mkl_detection_and_linking [where ?'m = cythonize_call, OF t0 h0, of "''/usr/include/numpy''"]
    apply (elim exE conjE)
    subgoal for call
      by (intro exI [of _ call]) (simp add: p0)
    done
  from w1 w0 show ?thesis by (rule conjI)
qed

text \<open>
  C3 as the spec states it fails where \<open>MKL_DIR\<close> is set to the empty string and
  \<open>MKLROOT\<close> to a directory: one of the three variables is set and not empty, yet
  \<open>os.getenv("MKL_DIR", ...)\<close> returns the empty string, \<open>HAVE_MKL\<close> stays 0 and no
  library is linked.
\<close>

theorem mkl_root_shadowed_by_empty_mkl_dir:
  "environ \<lparr>environ = [''MKL_DIR'' \<mapsto> [], ''MKLROOT'' \<mapsto> ''/opt/intel/mkl''],
            files = Map.empty, spawned = []\<rparr> ''MKLROOT'' = Some ''/opt/intel/mkl'' \<and>
   map_sum id compile_time_env
     (cythonize_args ''/usr/include/numpy'' 4300
        \<lparr>environ = [''MKL_DIR'' \<mapsto> [], ''MKLROOT'' \<mapsto> ''/opt/intel/mkl''],
         files = Map.empty, spawned = []\<rparr>)
     = Inr [''HAVE_MKL'' \<mapsto> 0] \<and>
   map_sum id extensions
     (cythonize_args ''/usr/include/numpy'' 4300
        \<lparr>environ = [''MKL_DIR'' \<mapsto> [], ''MKLROOT'' \<mapsto> ''/opt/intel/mkl''],
         files = Map.empty, spawned = []\<rparr>)
     = Inr [\<lparr>ext_name = ''*'', sources = [''tenpy/linalg/*.pyx''],
             include_dirs = [''/usr/include/numpy''], libraries = [], library_dirs = [],
             define_macros = [], language = ''c++''\<rparr>]"
  by (simp add: cythonize_args_def getenv_int_def getenv_def Let_def)

text \<open>
  C5: for every integer level read from \<open>TENPY_OPTIMIZE\<close> (the variable \<open>HAVE_MKL\<close> being
  unset or an integer, so that the function returns), a level below 1 sets the directives
  \<open>profile\<close> and \<open>linetrace\<close> to \<open>True\<close> in the call of \<open>cythonize\<close>, and a level of 1
  or more leaves both out of the directives.
\<close>

theorem profiling_directives_below_level_one:
  assumes "getenv_int lim w ''TENPY_OPTIMIZE'' 1 = Inr level"
    and "env_int_ok lim w ''HAVE_MKL''"
  shows "\<exists>call. (\<forall>cy :: cythonize_call \<Rightarrow> 'm list.
                    setup_cython_extension (Some cy) inc lim w = Inr (cy call)) \<and>
           (level < 1 \<longrightarrow>
              compiler_directives call ''profile'' = Some (PyBool True) \<and>
              compiler_directives call ''linetrace'' = Some (PyBool True)) \<and>
           (1 \<le> level \<longrightarrow>
              compiler_directives call ''profile'' = None \<and>
              compiler_directives call ''linetrace'' = None)"
proof -
  from setup_directives [OF assms, of inc]
  obtain call where c: "\<forall>cy :: cythonize_call \<Rightarrow> 'm list.
                           setup_cython_extension (Some cy) inc lim w = Inr (cy call)"
    and d: "compiler_directives call =
             (if 1 < level
              then [''language_level'' \<mapsto> PyInt 3, ''embedsignature'' \<mapsto> PyBool True,
                    ''initializedcheck'' \<mapsto> PyBool False, ''boundscheck'' \<mapsto> PyBool False]
              else if level < 1
              then [''language_level'' \<mapsto> PyInt 3, ''embedsignature'' \<mapsto> PyBool True,
                    ''profile'' \<mapsto> PyBool True, ''linetrace'' \<mapsto> PyBool True]
              else [''language_level'' \<mapsto> PyInt 3, ''embedsignature'' \<mapsto> PyBool True])"
    by blast
  have "level < 1 \<longrightarrow>
      compiler_directives call ''profile'' = Some (PyBool True) \<and>
      compiler_directives call ''linetrace'' = Some (PyBool True)"
    by (simp add: d)
  moreover have "1 \<le> level \<longrightarrow>
      compiler_directives call ''profile'' = None \<and>
      compiler_directives call ''linetrace'' = None"
    by (simp add: d)
  ultimately show ?thesis using c by blast
qed

theorem profiling_directives_below_level_one_witness:
  "(\<exists>call. (\<forall>cy :: cythonize_call \<Rightarrow> cythonize_call list.
        setup_cython_extension (Some cy) ''/usr/include/numpy'' 4300
          \<lparr>environ = [''TENPY_OPTIMIZE'' \<mapsto> ''0''], files = Map.empty, spawned = []\<rparr>
        = Inr (cy call)) \<and>
      compiler_directives call ''profile'' = Some (PyBool True) \<and>
      compiler_directives call ''linetrace'' = Some (PyBool True)) \<and>
   (\<exists>call. (\<forall>cy :: cythonize_call \<Rightarrow> cythonize_call list.
        setup_cython_extension (Some cy) ''/usr/include/numpy'' 4300
          \<lparr>environ = [''TENPY_OPTIMIZE'' \<mapsto> ''3''], files = Map.empty, spawned = []\<rparr>
        = Inr (cy call)) \<and>
      compiler_directives call ''profile'' = None \<and>
      compiler_directives call ''linetrace'' = None)"
proof -
  let ?w0 = "\<lparr>environ = [''TENPY_OPTIMIZE'' \<mapsto> ''0''], files = Map.empty, spawned = []\<rparr>"
  let ?w3 = "\<lparr>environ = [''TENPY_OPTIMIZE'' \<mapsto> ''3''], files = Map.empty, spawned = []\<rparr>"
  have l0: "getenv_int 4300 ?w0 ''TENPY_OPTIMIZE'' 1 = Inr 0" by code_simp
  have l3: "getenv_int 4300 ?w3 ''TENPY_OPTIMIZE'' 1 = Inr 3" by code_simp
  have m0: "env_int_ok 4300 ?w0 ''HAVE_MKL''" by (simp add: env_int_ok_def)
  have m3: "env_int_ok 4300 ?w3 ''HAVE_MKL''" by (simp add: env_int_ok_def)
  show ?thesis
    using profiling_directives_below_level_one [OF l0 m0, of "''/usr/include/numpy''"]
      profiling_directives_below_level_one [OF l3 m3, of "''/usr/include/numpy''"]
    by simp
qed

text \<open>
  C6: with \<open>TENPY_OPTIMIZE\<close> unset the level is the default 1, and at the level 1 the
  directives handed to \<open>cythonize\<close> are exactly \<open>language_level = 3\<close> and
  \<open>embedsignature = True\<close>: none of \<open>boundscheck\<close>, \<open>initializedcheck\<close>, \<open>profile\<close>,
  \<open>linetrace\<close> is set.
\<close>

theorem default_level_baseline_directives:
  assumes "env_int_ok lim w ''HAVE_MKL''"
  shows "(environ w ''TENPY_OPTIMIZE'' = None \<longrightarrow>
            getenv_int lim w ''TENPY_OPTIMIZE'' 1 = Inr 1) \<and>
         (getenv_int lim w ''TENPY_OPTIMIZE'' 1 = Inr 1 \<longrightarrow>
            (\<exists>call. (\<forall>cy :: cythonize_call \<Rightarrow> 'm list.
                       setup_cython_extension (Some cy) inc lim w = Inr (cy call)) \<and>
               compiler_directives call =
                 [''language_level'' \<mapsto> PyInt 3, ''embedsignature'' \<mapsto> PyBool True]))"
proof (intro conjI impI)
  assume "environ w ''TENPY_OPTIMIZE'' = None"
  then show "getenv_int lim w ''TENPY_OPTIMIZE'' 1 = Inr 1"
    by (simp add: getenv_int_def)
next
  assume l: "getenv_int lim w ''TENPY_OPTIMIZE'' 1 = Inr 1"
  from setup_directives [OF l assms, of inc]
  show "\<exists>call. (\<forall>cy :: cythonize_call \<Rightarrow> 'm list.
                  setup_cython_extension (Some cy) inc lim w = Inr (cy call)) \<and>
          compiler_directives call =
            [''language_level'' \<mapsto> PyInt 3, ''embedsignature'' \<mapsto> PyBool True]"
    by simp
qed

theorem default_level_baseline_directives_witness:
  "getenv_int 4300 \<lparr>environ = Map.empty, files = Map.empty, spawned = []\<rparr> ''TENPY_OPTIMIZE'' 1
     = Inr 1 \<and>
   (\<exists>call. (\<forall>cy :: cythonize_call \<Rightarrow> cythonize_call list.
        setup_cython_extension (Some cy) ''/usr/include/numpy'' 4300
          \<lparr>environ = Map.empty, files = Map.empty, spawned = []\<rparr>
        = Inr (cy call)) \<and>
      compiler_directives call =
        [''language_level'' \<mapsto> PyInt 3, ''embedsignature'' \<mapsto> PyBool True])"
proof -
  let ?w = "\<lparr>environ = Map.empty, files = Map.empty, spawned = []\<rparr> :: world"
  have m: "env_int_ok 4300 ?w ''HAVE_MKL''" by (simp add: env_int_ok_def)
  have l: "getenv_int 4300 ?w ''TENPY_OPTIMIZE'' 1 = Inr 1" by (simp add: getenv_int_def)
  show ?thesis
    using default_level_baseline_directives [OF m, of "''/usr/include/numpy''"] l
    by simp
qed

text \<open>
  C8: when the import of Cython fails, \<open>setup_cython_extension\<close> returns the empty list
  of extension modules and raises nothing, in every world: the environment is not read,
  so even a \<open>TENPY_OPTIMIZE\<close> that is no integer does no harm.
\<close>

theorem no_cython_no_extensions:
  "setup_cython_extension (fst (import_cython (Inl e))) inc lim w = Inr []"
  by (simp add: import_cython_def setup_cython_extension_def)

theorem no_cython_no_extensions_witness:
  "setup_cython_extension
     (fst (import_cython (Inl ImportError)) :: (cythonize_call \<Rightarrow> cythonize_call list) option)
     ''/usr/include/numpy'' 4300
     \<lparr>environ = [''TENPY_OPTIMIZE'' \<mapsto> ''fast''], files = Map.empty, spawned = []\<rparr>
   = Inr []"
  by (rule no_cython_no_extensions)

section \<open>Properties of the version stamping\<close>

text \<open>
  C10: without an entry \<open>.git\<close> in the working directory, \<open>get_git_revision\<close> returns
  \<open>"unknown"\<close> and \<open>get_git_description\<close> returns 0. Neither raises, and the world
  that comes back is the one that went in: its log of subprocesses has not grown, no
  \<open>git\<close> was run.
\<close>

theorem no_git_directory:
  assumes "\<not> path_exists w ''.git''"
  shows "get_git_revision check_output w = (''unknown'', w) \<and>
         get_git_description lim check_output w = (Inr 0, w)"
  using assms by (simp add: get_git_revision_def get_git_description_def)

theorem no_git_directory_witness:
  "get_git_revision (\<lambda>cmd. Inr ''0123456789abcdef'')
     \<lparr>environ = Map.empty, files = [''setup.py'' \<mapsto> File ''''], spawned = []\<rparr>
     = (''unknown'', \<lparr>environ = Map.empty, files = [''setup.py'' \<mapsto> File ''''], spawned = []\<rparr>) \<and>
   get_git_description 4300 (\<lambda>cmd. Inr ''0123456789abcdef'')
     \<lparr>environ = Map.empty, files = [''setup.py'' \<mapsto> File ''''], spawned = []\<rparr>
     = (Inr 0, \<lparr>environ = Map.empty, files = [''setup.py'' \<mapsto> File ''''], spawned = []\<rparr>)"
proof -
  let ?w = "\<lparr>environ = Map.empty, files = [''setup.py'' \<mapsto> File ''''], spawned = []\<rparr>"
  have g: "\<not> path_exists ?w ''.git''" by (simp add: path_exists_def)
  show ?thesis
    using no_git_directory [OF g, of "\<lambda>cmd. Inr ''0123456789abcdef''" 4300] by simp
qed

text \<open>The git queries add to the log of subprocesses only.\<close>

lemma get_git_revision_frame:
  "files (snd (get_git_revision check_output w)) = files w \<and>
   environ (snd (get_git_revision check_output w)) = environ w"
  by (simp add: get_git_revision_def spawn_def split: sum.splits)

lemma get_git_description_frame:
  "files (snd (get_git_description lim check_output w)) = files w \<and>
   environ (snd (get_git_description lim check_output w)) = environ w"
  by (simp add: get_git_description_def spawn_def Let_def split: sum.splits list.splits option.splits)

lemma get_version_info_frame:
  "files (snd (get_version_info lim check_output w)) = files w \<and>
   environ (snd (get_version_info lim check_output w)) = environ w"
proof -
  obtain rev w1 where r: "get_git_revision check_output w = (rev, w1)"
    by (cases "get_git_revision check_output w")
  obtain d w2 where d: "get_git_description lim check_output w1 = (d, w2)"
    by (cases "get_git_description lim check_output w1")
  from r get_git_revision_frame [of check_output w]
  have f1: "files w1 = files w" "environ w1 = environ w" by simp_all
  from d get_git_description_frame [of lim check_output w1]
  have f2: "files w2 = files w1" "environ w2 = environ w1" by simp_all
  show ?thesis
    by (simp add: get_version_info_def r d f1 f2 split: sum.splits)
qed

text \<open>
  C9: \<open>write_underscore_version_py\<close> leaves the file system as it was, for every
  \<open>filename\<close> and whether the version information could be read or not: the file
  \<open>filename\<close> is not written, and no other file is.
\<close>

theorem version_file_never_written:
  "files (snd (write_underscore_version_py lim check_output numpy_ver cython_ver filename w))
     = files w"
proof -
  obtain r w' where v: "get_version_info lim check_output w = (r, w')"
    by (cases "get_version_info lim check_output w")
  from v get_version_info_frame [of lim check_output w] have "files w' = files w"
    by simp
  then show ?thesis
    by (simp add: write_underscore_version_py_def v split: sum.splits prod.splits)
qed

theorem version_file_never_written_witness:
  "files (snd (write_underscore_version_py 4300 (\<lambda>cmd. Inr ''v0.9.0-12-g0123abc'')
                 ''1.26.0'' ''3.0.2'' ''tenpy/_version.py''
                 \<lparr>environ = Map.empty, files = [''.git'' \<mapsto> Directory], spawned = []\<rparr>))
     = [''.git'' \<mapsto> Directory]"
  using version_file_never_written
    [of 4300 "\<lambda>cmd. Inr ''v0.9.0-12-g0123abc''" "''1.26.0''" "''3.0.2''" "''tenpy/_version.py''"
        "\<lparr>environ = Map.empty, files = [''.git'' \<mapsto> Directory], spawned = []\<rparr>"]
  by simp

section \<open>The level over time\<close>





end
